theory Spec2Isabelle
  imports Main "HOL-Library.Word"
begin

section \<open>Console commands of the minqlx fork (commands.c)\<close>

text \<open>
  The file \<^verbatim>\<open>commands.c\<close> holds the console commands that the extension adds to the
  dedicated server: three print commands, \<^verbatim>\<open>slap\<close>, \<^verbatim>\<open>slay\<close>, and the bridge
  into the embedded Python interpreter. Every command is a \<^verbatim>\<open>void\<close> function that reads
  the tokenised command line from the engine and acts on global engine state. The
  embedding below passes that state explicitly as a record and keeps, in call order,
  every call a command makes to an engine or interpreter primitive.
\<close>

subsection \<open>Machine integers and the C library\<close>

text \<open>
  A C \<^verbatim>\<open>int\<close> is a 32-bit word: \<open>+\<close> and \<open>-\<close> wrap around, the comparisons of the
  source are the signed ones (\<open><s\<close>).
\<close>

type_synonym cint = "32 word"

definition isspace_c :: "char \<Rightarrow> bool" where
  "isspace_c c = (of_char c \<in> set [32, 9, 10, 11, 12, 13 :: nat])"

definition isdigit_c :: "char \<Rightarrow> bool" where
  "isdigit_c c = (48 \<le> (of_char c :: nat) \<and> (of_char c :: nat) \<le> 57)"

text \<open>The decimal digits at the front of a string, read onto an accumulator.\<close>

fun digits_value :: "int \<Rightarrow> string \<Rightarrow> int" where
  "digits_value acc [] = acc"
| "digits_value acc (c # cs) =
     (if isdigit_c c then digits_value (acc * 10 + (of_char c - 48)) cs else acc)"

text \<open>
  \<^verbatim>\<open>atoi\<close> of the C library: white space is skipped, one sign is read, then the
  digits; a string with no number in that place gives 0. A value that does not fit an
  \<^verbatim>\<open>int\<close> is left undefined by C; here it is reduced to 32 bits.
\<close>

definition atoi :: "string \<Rightarrow> cint" where
  "atoi str =
     (case dropWhile isspace_c str of
        [] \<Rightarrow> 0
      | c # cs \<Rightarrow>
          if c = CHR ''-'' then word_of_int (- digits_value 0 cs)
          else if c = CHR ''+'' then word_of_int (digits_value 0 cs)
          else word_of_int (digits_value 0 (c # cs)))"

text \<open>
  A string in which \<^verbatim>\<open>atoi\<close> finds nothing to read: after the white space it is over,
  or goes on with a character that is neither a digit nor a sign.
\<close>

definition no_number :: "string \<Rightarrow> bool" where
  "no_number str =
     (case dropWhile isspace_c str of
        [] \<Rightarrow> True
      | c # cs \<Rightarrow> \<not> isdigit_c c \<and> c \<noteq> CHR ''-'' \<and> c \<noteq> CHR ''+'')"

subsection \<open>Engine state\<close>

text \<open>
  Modelled from the spec: the declarations of \<^verbatim>\<open>gentity_t\<close>, \<^verbatim>\<open>client_t\<close> and
  \<^verbatim>\<open>sv_maxclients\<close> (quake_common.h) are not part of the sources. The spec's Entity
  Record carries \<open>in_use\<close>, \<open>health\<close> (a signed integer), \<open>velocity\<close> (three
  components) and a reference to the display name of the owning client. The fields below
  are the ones \<^verbatim>\<open>commands.c\<close> reads or writes, named by their access path:
  \<^verbatim>\<open>g_entities[i].s.number\<close>, \<^verbatim>\<open>g_entities[i].client->ps.velocity\<close>,
  \<^verbatim>\<open>g_entities[i].inuse\<close>, \<^verbatim>\<open>g_entities[i].health\<close>, \<^verbatim>\<open>svs->clients[i].name\<close>. The
  \<^verbatim>\<open>client\<close> pointer of an entity is taken to point to a structure of its own. The
  type \<open>'f\<close> stands for \<^verbatim>\<open>float\<close>.
\<close>

type_synonym 'f vec3 = "'f \<times> 'f \<times> 'f"

record 'f gentity =
  s_number :: cint
  client_ps_velocity :: "'f vec3"
  inuse :: bool
  health :: cint

record client_t =
  name :: string

text \<open>What a \<^verbatim>\<open>printf\<close>-style primitive receives after its format string.\<close>

datatype fmt_arg = ArgS string | ArgD cint

datatype entity_event = EV_PAIN | EV_DEATH1 | EV_GIB_PLAYER

text \<open>A Python object as the bridge sees it: the two booleans, \<^verbatim>\<open>None\<close>, or another object.\<close>

datatype pyobj = Py_False | Py_True | Py_None | Py_Object nat

text \<open>
  The calls a command makes to the engine and to the interpreter, as they are observed
  from outside. \<open>ServerCommand None\<close> is \<^verbatim>\<open>SV_SendServerCommand(NULL, ...)\<close>, a
  broadcast to every client; \<open>ConsolePrint\<close> is the output of \<^verbatim>\<open>Com_Printf\<close> on the
  local console.
\<close>

datatype effect =
    ConsolePrint string "fmt_arg list"
  | ServerCommand "nat option" string "fmt_arg list"
  | DebugOut string "fmt_arg list"
  | NetEvent nat entity_event cint
  | RconCall string
  | GIL_Acquired
  | GIL_Released
  | HandlerCall string
  | RefReleased pyobj
  | InterpreterFinalized
  | InterpreterInitialized
  | InitializeRefused
  | NewGameCall cint

text \<open>
  A registered command handler is a callable of the interpreter. A call with the
  argument string returns an object, or \<^verbatim>\<open>NULL\<close> (here \<open>None\<close>) when the interpreter
  raised an exception.
\<close>

type_synonym pyhandler = "string \<Rightarrow> pyobj option"

record 'f world =
  sv_maxclients :: cint
  g_entities :: "nat \<Rightarrow> 'f gentity"
  svs_clients :: "nat \<Rightarrow> client_t"
  rand_calls :: nat
  initialized :: bool
  custom_command_handler :: "pyhandler option"
  gil_depth :: nat
  trace :: "effect list"

text \<open>
  The command line of one dispatch, through the three accessors of the engine's
  tokeniser.
\<close>

record invocation =
  Cmd_Argc :: cint
  Cmd_Argv :: "nat \<Rightarrow> string"
  Cmd_Args :: string

text \<open>
  \<^verbatim>\<open>float\<close> arithmetic and \<^verbatim>\<open>RandomFloatWithNegative\<close> (defined outside
  \<^verbatim>\<open>commands.c\<close>) are parameters: \<open>RandomFloatWithNegative fe k\<close> is the value of the
  \<open>k\<close>-th call to the generator since the server started.
\<close>

record 'f float_env =
  RandomFloatWithNegative :: "nat \<Rightarrow> 'f"
  fmul :: "'f \<Rightarrow> 'f \<Rightarrow> 'f"
  fadd :: "'f \<Rightarrow> 'f \<Rightarrow> 'f"
  f200 :: 'f
  f300 :: 'f

subsection \<open>Engine primitives\<close>

definition emit :: "effect \<Rightarrow> 'f world \<Rightarrow> 'f world" where
  "emit e w = w\<lparr>trace := trace w @ [e]\<rparr>"

definition Com_Printf :: "string \<Rightarrow> fmt_arg list \<Rightarrow> 'f world \<Rightarrow> 'f world" where
  "Com_Printf fmt args w = emit (ConsolePrint fmt args) w"

definition SV_SendServerCommand ::
  "nat option \<Rightarrow> string \<Rightarrow> fmt_arg list \<Rightarrow> 'f world \<Rightarrow> 'f world" where
  "SV_SendServerCommand cl fmt args w = emit (ServerCommand cl fmt args) w"

definition DebugPrint :: "string \<Rightarrow> fmt_arg list \<Rightarrow> 'f world \<Rightarrow> 'f world" where
  "DebugPrint fmt args w = emit (DebugOut fmt args) w"

definition G_AddEvent :: "nat \<Rightarrow> entity_event \<Rightarrow> cint \<Rightarrow> 'f world \<Rightarrow> 'f world" where
  "G_AddEvent n ev parm w = emit (NetEvent n ev parm) w"

definition next_random :: "'f float_env \<Rightarrow> 'f world \<Rightarrow> 'f \<times> 'f world" where
  "next_random fe w =
     (RandomFloatWithNegative fe (rand_calls w), w\<lparr>rand_calls := Suc (rand_calls w)\<rparr>)"

definition set_entity :: "nat \<Rightarrow> 'f gentity \<Rightarrow> 'f world \<Rightarrow> 'f world" where
  "set_entity n e w = w\<lparr>g_entities := (g_entities w)(n := e)\<rparr>"

text \<open>\<^verbatim>\<open>velocity[k] += x\<close> on a three-component vector.\<close>

fun vec3_add :: "'f float_env \<Rightarrow> nat \<Rightarrow> 'f \<Rightarrow> 'f vec3 \<Rightarrow> 'f vec3" where
  "vec3_add fe k x (a, b, c) =
     (if k = 0 then (fadd fe a x, b, c)
      else if k = 1 then (a, fadd fe b x, c)
      else (a, b, fadd fe c x))"

definition add_velocity :: "'f float_env \<Rightarrow> nat \<Rightarrow> nat \<Rightarrow> 'f \<Rightarrow> 'f world \<Rightarrow> 'f world" where
  "add_velocity fe n k x w =
     set_entity n ((g_entities w n)
       \<lparr>client_ps_velocity := vec3_add fe k x (client_ps_velocity (g_entities w n))\<rparr>) w"

definition set_health :: "nat \<Rightarrow> cint \<Rightarrow> 'f world \<Rightarrow> 'f world" where
  "set_health n h w = set_entity n ((g_entities w n)\<lparr>health := h\<rparr>) w"

text \<open>The part of the trace that a command added to the world it started from.\<close>

definition new_effects :: "'f world \<Rightarrow> 'f world \<Rightarrow> effect list" where
  "new_effects w w' = drop (length (trace w)) (trace w')"

subsection \<open>Slap and Slay\<close>

definition Slap :: "'f float_env \<Rightarrow> invocation \<Rightarrow> 'f world \<Rightarrow> 'f world" where
  \<open>Slap fe cmd w =
    (let dmg = 0;
         argc = Cmd_Argc cmd in
     if argc <s 2 then
       Com_Printf ''Usage: %s <client_id> [damage]\<newline>'' [ArgS (Cmd_Argv cmd 0)] w
     else
       let i = atoi (Cmd_Argv cmd 1) in
       if i <s 0 \<or> sv_maxclients w <s i then
         Com_Printf ''client_id must be a number between 0 and %d\<newline>.''
           [ArgD (sv_maxclients w)] w
       else
         let dmg = (if 2 <s argc then atoi (Cmd_Argv cmd 2) else dmg);
             n = unat i in
         if inuse (g_entities w n) \<and> 0 <s health (g_entities w n) then
           let w = Com_Printf ''Slapping...\<newline>'' [] w;
               w = (if dmg \<noteq> 0 then
                      SV_SendServerCommand None
                        ''print "%s^7 was slapped for %d damage!\<newline>"\<newline>''
                        [ArgS (name (svs_clients w n)), ArgD dmg] w
                    else
                      SV_SendServerCommand None ''print "%s^7 was slapped!\<newline>"\<newline>''
                        [ArgS (name (svs_clients w n))] w);
               (r, w) = next_random fe w;
               w = add_velocity fe n 0 (fmul fe r (f200 fe)) w;
               (r, w) = next_random fe w;
               w = add_velocity fe n 1 (fmul fe r (f200 fe)) w;
               w = add_velocity fe n 2 (f300 fe) w;
               w = set_health n (health (g_entities w n) - dmg) w
           in if 0 <s health (g_entities w n) then G_AddEvent n EV_PAIN 99 w
              else G_AddEvent n EV_DEATH1 (s_number (g_entities w n)) w
         else
           Com_Printf ''The player is currently not active.\<newline>'' [] w)\<close>

definition Slay :: "invocation \<Rightarrow> 'f world \<Rightarrow> 'f world" where
  \<open>Slay cmd w =
    (let argc = Cmd_Argc cmd in
     if argc <s 2 then
       Com_Printf ''Usage: %s <client_id>\<newline>'' [ArgS (Cmd_Argv cmd 0)] w
     else
       let i = atoi (Cmd_Argv cmd 1);
           n = unat i in
       if i <s 0 \<or> sv_maxclients w <s i then
         Com_Printf ''client_id must be a number between 0 and %d\<newline>.''
           [ArgD (sv_maxclients w)] w
       else if inuse (g_entities w n) \<and> 0 <s health (g_entities w n) then
         let w = Com_Printf ''Slaying player...\<newline>'' [] w;
             w = SV_SendServerCommand None ''print "%s^7 was slain!\<newline>"\<newline>''
                   [ArgS (name (svs_clients w n))] w;
             w = DebugPrint ''Slaying '%s'!\<newline>''
                   [ArgS (name (svs_clients w n))] w;
             w = set_health n (- 40) w
         in G_AddEvent n EV_GIB_PLAYER (s_number (g_entities w n)) w
       else
         Com_Printf ''The player is currently not active.\<newline>'' [] w)\<close>

text \<open>The two diagnostics with which Slap and Slay turn a target down.\<close>

abbreviation range_diagnostic :: "'f world \<Rightarrow> effect" where
  \<open>range_diagnostic w \<equiv>
     ConsolePrint ''client_id must be a number between 0 and %d\<newline>.'' [ArgD (sv_maxclients w)]\<close>

abbreviation not_active_diagnostic :: effect where
  \<open>not_active_diagnostic \<equiv> ConsolePrint ''The player is currently not active.\<newline>'' []\<close>

subsection \<open>The print commands\<close>

definition SendServerCommand :: "invocation \<Rightarrow> 'f world \<Rightarrow> 'f world" where
  \<open>SendServerCommand cmd w = SV_SendServerCommand None ''%s\<newline>'' [ArgS (Cmd_Args cmd)] w\<close>

definition CenterPrint :: "invocation \<Rightarrow> 'f world \<Rightarrow> 'f world" where
  \<open>CenterPrint cmd w = SV_SendServerCommand None ''cp "%s"\<newline>'' [ArgS (Cmd_Args cmd)] w\<close>

definition RegularPrint :: "invocation \<Rightarrow> 'f world \<Rightarrow> 'f world" where
  \<open>RegularPrint cmd w =
     SV_SendServerCommand None ''print "%s\<newline>"\<newline>'' [ArgS (Cmd_Args cmd)] w\<close>

subsection \<open>The interpreter and its lock\<close>

text \<open>
  The interpreter lock is re-entrant for the thread that holds it: \<open>gil_depth\<close> counts
  the holds of the engine's thread. \<^verbatim>\<open>PyGILState_Ensure\<close> returns the state it found,
  and \<^verbatim>\<open>PyGILState_Release\<close> puts that state back.
\<close>

definition PyGILState_Ensure :: "'f world \<Rightarrow> nat \<times> 'f world" where
  "PyGILState_Ensure w = (gil_depth w, emit GIL_Acquired (w\<lparr>gil_depth := Suc (gil_depth w)\<rparr>))"

definition PyGILState_Release :: "nat \<Rightarrow> 'f world \<Rightarrow> 'f world" where
  "PyGILState_Release gstate w = emit GIL_Released (w\<lparr>gil_depth := gstate\<rparr>)"

text \<open>
  \<^verbatim>\<open>PyObject_CallFunction(handler, "s", args)\<close>: the handler runs on the argument string.
  The result is a new reference, or \<^verbatim>\<open>NULL\<close> when the call raised.
\<close>

definition PyObject_CallFunction ::
  "pyhandler \<Rightarrow> string \<Rightarrow> 'f world \<Rightarrow> pyobj option \<times> 'f world" where
  "PyObject_CallFunction h arg w = (h arg, emit (HandlerCall arg) w)"

text \<open>\<^verbatim>\<open>Py_XDECREF\<close> drops a reference and does nothing on \<^verbatim>\<open>NULL\<close>.\<close>

definition Py_XDECREF :: "pyobj option \<Rightarrow> 'f world \<Rightarrow> 'f world" where
  "Py_XDECREF r w = (case r of None \<Rightarrow> w | Some obj \<Rightarrow> emit (RefReleased obj) w)"

text \<open>
  Modelled from the spec: \<^verbatim>\<open>PyMinqlx_IsInitialized\<close>, \<^verbatim>\<open>PyMinqlx_Initialize\<close>,
  \<^verbatim>\<open>PyMinqlx_Finalize\<close>, \<^verbatim>\<open>NewGameDispatcher\<close> and \<^verbatim>\<open>RconDispatcher\<close> are declared in
  pyminqlx.h and defined outside \<^verbatim>\<open>commands.c\<close>. After the spec, Initialize takes the
  session from Uninitialized to Initialized and fails, reported and not fatal, when the
  session is initialized already; the handler is unregistered at session start;
  Finalize takes the session from Initialized to Uninitialized and invalidates the
  registered handler, and is guarded (here: does nothing) on a session that is not
  initialized. The two dispatchers are recorded as calls.
\<close>

definition PyMinqlx_IsInitialized :: "'f world \<Rightarrow> bool" where
  "PyMinqlx_IsInitialized w = initialized w"

definition PyMinqlx_Initialize :: "'f world \<Rightarrow> 'f world" where
  "PyMinqlx_Initialize w =
     (if initialized w then emit InitializeRefused w
      else emit InterpreterInitialized
             (w\<lparr>initialized := True, custom_command_handler := None\<rparr>))"

definition PyMinqlx_Finalize :: "'f world \<Rightarrow> 'f world" where
  "PyMinqlx_Finalize w =
     (if initialized w then
        emit InterpreterFinalized (w\<lparr>initialized := False, custom_command_handler := None\<rparr>)
      else w)"

definition NewGameDispatcher :: "cint \<Rightarrow> 'f world \<Rightarrow> 'f world" where
  "NewGameDispatcher restart w = emit (NewGameCall restart) w"

definition RconDispatcher :: "string \<Rightarrow> 'f world \<Rightarrow> 'f world" where
  "RconDispatcher line w = emit (RconCall line) w"

subsection \<open>The Python commands\<close>

definition PyRcon :: "invocation \<Rightarrow> 'f world \<Rightarrow> 'f world" where
  "PyRcon cmd w = RconDispatcher (Cmd_Args cmd) w"

definition PyCommand :: "invocation \<Rightarrow> 'f world \<Rightarrow> 'f world" where
  \<open>PyCommand cmd w =
    (case custom_command_handler w of
       None \<Rightarrow> w
     | Some h \<Rightarrow>
         let (gstate, w) = PyGILState_Ensure w;
             (result, w) = PyObject_CallFunction h (Cmd_Args cmd) w;
             w = (if result = Some Py_False then
                    Com_Printf
                      ''The command failed to be executed. pyminqlx found no handler.\<newline>''
                      [] w
                  else w);
             w = Py_XDECREF result w
         in PyGILState_Release gstate w)\<close>

definition RestartPython :: "'f world \<Rightarrow> 'f world" where
  \<open>RestartPython w =
    (let w = Com_Printf ''Restarting Python...\<newline>'' [] w;
         w = (if PyMinqlx_IsInitialized w then PyMinqlx_Finalize w else w);
         w = PyMinqlx_Initialize w
     in NewGameDispatcher 0 w)\<close>

subsection \<open>Reading a trace\<close>

text \<open>\<open>precedes a b tr\<close>: \<open>b\<close> occurs in \<open>tr\<close>, and \<open>a\<close> occurs before the first \<open>b\<close>.\<close>

definition precedes :: "effect \<Rightarrow> effect \<Rightarrow> effect list \<Rightarrow> bool" where
  "precedes a b tr = (b \<in> set tr \<and> a \<in> set (takeWhile (\<lambda>e. e \<noteq> b) tr))"

fun is_console_print :: "effect \<Rightarrow> bool" where
  "is_console_print (ConsolePrint fmt args) = True"
| "is_console_print e = False"

fun is_server_command :: "effect \<Rightarrow> bool" where
  "is_server_command (ServerCommand cl fmt args) = True"
| "is_server_command e = False"

fun is_net_event :: "effect \<Rightarrow> bool" where
  "is_net_event (NetEvent n ev parm) = True"
| "is_net_event e = False"

fun is_new_game :: "effect \<Rightarrow> bool" where
  "is_new_game (NewGameCall restart) = True"
| "is_new_game e = False"

subsection \<open>Sample states\<close>

text \<open>
  A server with eight client slots, its entity table filled with free entities except
  for the ones given, and integers standing in for \<^verbatim>\<open>float\<close>.
\<close>

definition free_entity :: "nat \<Rightarrow> int gentity" where
  "free_entity k =
     \<lparr>s_number = of_nat k, client_ps_velocity = (0, 0, 0), inuse = False, health = 0\<rparr>"

definition player :: "nat \<Rightarrow> cint \<Rightarrow> int gentity" where
  "player k h = (free_entity k)\<lparr>inuse := True, health := h\<rparr>"

definition server :: "(nat \<times> int gentity) list \<Rightarrow> pyhandler option \<Rightarrow> bool \<Rightarrow> int world" where
  "server ents h up =
     \<lparr>sv_maxclients = 8,
      g_entities = (\<lambda>k. case map_of ents k of None \<Rightarrow> free_entity k | Some e \<Rightarrow> e),
      svs_clients = (\<lambda>k. \<lparr>name = ''Sarge''\<rparr>),
      rand_calls = 0,
      initialized = up,
      custom_command_handler = h,
      gil_depth = 0,
      trace = []\<rparr>"

definition int_floats :: "int float_env" where
  "int_floats =
     \<lparr>RandomFloatWithNegative = (\<lambda>k. if even k then 1 else - 1),
      fmul = (*), fadd = (+), f200 = 200, f300 = 300\<rparr>"

definition command_line :: "string list \<Rightarrow> string \<Rightarrow> invocation" where
  "command_line argv args =
     \<lparr>Cmd_Argc = of_nat (length argv),
      Cmd_Argv = (\<lambda>k. if k < length argv then argv ! k else []),
      Cmd_Args = args\<rparr>"

section \<open>Properties\<close>

subsection \<open>What the primitives leave alone\<close>

lemma emit_fields [simp]:
  "trace (emit e w) = trace w @ [e]"
  "g_entities (emit e w) = g_entities w"
  "sv_maxclients (emit e w) = sv_maxclients w"
  "svs_clients (emit e w) = svs_clients w"
  "rand_calls (emit e w) = rand_calls w"
  "initialized (emit e w) = initialized w"
  "custom_command_handler (emit e w) = custom_command_handler w"
  "gil_depth (emit e w) = gil_depth w"
  by (simp_all add: emit_def)

lemma add_velocity_fields [simp]:
  "trace (add_velocity fe n k x w) = trace w"
  "sv_maxclients (add_velocity fe n k x w) = sv_maxclients w"
  "svs_clients (add_velocity fe n k x w) = svs_clients w"
  "health (g_entities (add_velocity fe n k x w) m) = health (g_entities w m)"
  "inuse (g_entities (add_velocity fe n k x w) m) = inuse (g_entities w m)"
  "s_number (g_entities (add_velocity fe n k x w) m) = s_number (g_entities w m)"
  by (simp_all add: add_velocity_def set_entity_def)

lemma set_health_fields [simp]:
  "trace (set_health n h w) = trace w"
  "sv_maxclients (set_health n h w) = sv_maxclients w"
  "svs_clients (set_health n h w) = svs_clients w"
  "g_entities (set_health n h w) = (g_entities w)(n := (g_entities w n)\<lparr>health := h\<rparr>)"
  by (simp_all add: set_health_def set_entity_def)

lemma next_random_fields [simp]:
  "fst (next_random fe w) = RandomFloatWithNegative fe (rand_calls w)"
  "trace (snd (next_random fe w)) = trace w"
  "g_entities (snd (next_random fe w)) = g_entities w"
  "sv_maxclients (snd (next_random fe w)) = sv_maxclients w"
  "svs_clients (snd (next_random fe w)) = svs_clients w"
  by (simp_all add: next_random_def)

lemmas host_defs = Com_Printf_def SV_SendServerCommand_def DebugPrint_def G_AddEvent_def

lemmas sample_defs = server_def player_def free_entity_def command_line_def int_floats_def

lemmas atoi_defs = atoi_def isspace_c_def isdigit_c_def

text \<open>
  Subtracting from a positive health cannot pass the least \<^verbatim>\<open>int\<close>; when the
  difference also stays within the greatest one, the 32-bit result is that difference.
\<close>

lemma sint_sub_no_overflow:
  fixes h d :: cint
  assumes "0 <s h" and "sint h - sint d \<le> 2147483647"
  shows "sint (h - d) = sint h - sint d"
proof -
  have "0 < sint h" using assms(1) by (simp add: word_sless_alt)
  moreover have "sint d < 2147483648" using sint_lt [of d] by simp
  ultimately have lo: "- (2 ^ 31) \<le> sint h - sint d" by simp
  have hi: "sint h - sint d < 2 ^ 31" using assms(2) by simp
  have "sint (h - d) = signed_take_bit 31 (sint h - sint d)"
    by (simp add: sint_word_ariths)
  also have "\<dots> = sint h - sint d"
    using lo hi by (simp add: signed_take_bit_int_eq_self)
  finally show ?thesis .
qed

subsection \<open>Slap on an active player\<close>

text \<open>
  Claim C4. A slap of the entity at index \<open>i\<close>, in use and with positive health, with
  damage \<open>d\<close> (0 when the third token is absent) leaves the health of that entity at its
  former health minus \<open>d\<close>, in the 32-bit arithmetic of the field and, whenever the
  difference fits an \<^verbatim>\<open>int\<close>, as integers. Exactly one network event is emitted: a
  pain event when the new health is positive, a death event otherwise.
\<close>

theorem Slap_health_and_event:
  assumes "2 \<le>s Cmd_Argc cmd" and "i = atoi (Cmd_Argv cmd 1)"
    and "0 \<le>s i" and "i \<le>s sv_maxclients w"
    and "d = (if 2 <s Cmd_Argc cmd then atoi (Cmd_Argv cmd 2) else 0)"
    and "inuse (g_entities w (unat i))" and "0 <s health (g_entities w (unat i))"
  shows "health (g_entities (Slap fe cmd w) (unat i)) = health (g_entities w (unat i)) - d
    \<and> (sint (health (g_entities w (unat i))) - sint d \<le> 2147483647 \<longrightarrow>
         sint (health (g_entities (Slap fe cmd w) (unat i)))
           = sint (health (g_entities w (unat i))) - sint d)
    \<and> filter is_net_event (new_effects w (Slap fe cmd w)) =
        [if 0 <s health (g_entities w (unat i)) - d
         then NetEvent (unat i) EV_PAIN 99
         else NetEvent (unat i) EV_DEATH1 (s_number (g_entities w (unat i)))]"
proof -
  from assms have guards: "\<not> Cmd_Argc cmd <s 2" "\<not> atoi (Cmd_Argv cmd 1) <s 0"
    "\<not> sv_maxclients w <s atoi (Cmd_Argv cmd 1)"
    by (simp_all add: signed.not_less)
  have h: "health (g_entities (Slap fe cmd w) (unat i)) = health (g_entities w (unat i)) - d"
    using assms guards by (simp add: Slap_def Let_def split_def host_defs)
  have e: "filter is_net_event (new_effects w (Slap fe cmd w)) =
        [if 0 <s health (g_entities w (unat i)) - d
         then NetEvent (unat i) EV_PAIN 99
         else NetEvent (unat i) EV_DEATH1 (s_number (g_entities w (unat i)))]"
    using assms guards by (simp add: Slap_def Let_def split_def host_defs new_effects_def)
  from h e assms(7) show ?thesis
    by (simp add: sint_sub_no_overflow)
qed

text \<open>
  The two runs of the spec: a player in slot 0 with health 50 is slapped for 30, which
  leaves 20 and a pain event, and for 60, which leaves -10 and a death event.
\<close>

theorem Slap_health_and_event_witness:
  "health (g_entities (Slap int_floats (command_line [''slap'', ''0'', ''30''] ''0 30'')
       (server [(0, player 0 50)] None False)) 0) = 20
   \<and> filter is_net_event (new_effects (server [(0, player 0 50)] None False)
        (Slap int_floats (command_line [''slap'', ''0'', ''30''] ''0 30'')
          (server [(0, player 0 50)] None False))) = [NetEvent 0 EV_PAIN 99]
   \<and> health (g_entities (Slap int_floats (command_line [''slap'', ''0'', ''60''] ''0 60'')
       (server [(0, player 0 50)] None False)) 0) = - 10
   \<and> filter is_net_event (new_effects (server [(0, player 0 50)] None False)
        (Slap int_floats (command_line [''slap'', ''0'', ''60''] ''0 60'')
          (server [(0, player 0 50)] None False))) = [NetEvent 0 EV_DEATH1 0]"
  using Slap_health_and_event [of "command_line [''slap'', ''0'', ''30''] ''0 30''" 0
      "server [(0, player 0 50)] None False" 30 int_floats]
    Slap_health_and_event [of "command_line [''slap'', ''0'', ''60''] ''0 60''" 0
      "server [(0, player 0 50)] None False" 60 int_floats]
  by (simp add: sample_defs atoi_defs word_sless_alt word_sle_eq)

subsection \<open>Slay on an active player\<close>

text \<open>
  Claim C5. A slay of the entity at index \<open>i\<close>, in use and with positive health, sets
  its health to -40 whatever the health was, changes nothing else in the entity table,
  broadcasts a message with the name of the target and emits a gib event for it.
\<close>

theorem Slay_overkill:
  assumes "2 \<le>s Cmd_Argc cmd" and "i = atoi (Cmd_Argv cmd 1)"
    and "0 \<le>s i" and "i \<le>s sv_maxclients w"
    and "inuse (g_entities w (unat i))" and "0 <s health (g_entities w (unat i))"
  shows \<open>health (g_entities (Slay cmd w) (unat i)) = - 40
    \<and> g_entities (Slay cmd w) =
        (g_entities w)(unat i := (g_entities w (unat i))\<lparr>health := - 40\<rparr>)
    \<and> new_effects w (Slay cmd w) =
        [ConsolePrint ''Slaying player...\<newline>'' [],
         ServerCommand None ''print "%s^7 was slain!\<newline>"\<newline>''
           [ArgS (name (svs_clients w (unat i)))],
         DebugOut ''Slaying '%s'!\<newline>'' [ArgS (name (svs_clients w (unat i)))],
         NetEvent (unat i) EV_GIB_PLAYER (s_number (g_entities w (unat i)))]\<close>
proof -
  from assms have guards: "\<not> Cmd_Argc cmd <s 2" "\<not> atoi (Cmd_Argv cmd 1) <s 0"
    "\<not> sv_maxclients w <s atoi (Cmd_Argv cmd 1)"
    by (simp_all add: signed.not_less)
  show ?thesis
    using assms guards by (simp add: Slay_def Let_def host_defs new_effects_def)
qed

text \<open>Health 1 and health 999 both end at -40.\<close>

theorem Slay_overkill_witness:
  \<open>health (g_entities (Slay (command_line [''slay'', ''3''] ''3'')
       (server [(3, player 3 1)] None False)) 3) = - 40
   \<and> health (g_entities (Slay (command_line [''slay'', ''3''] ''3'')
       (server [(3, player 3 999)] None False)) 3) = - 40
   \<and> new_effects (server [(3, player 3 999)] None False)
       (Slay (command_line [''slay'', ''3''] ''3'') (server [(3, player 3 999)] None False)) =
        [ConsolePrint ''Slaying player...\<newline>'' [],
         ServerCommand None ''print "%s^7 was slain!\<newline>"\<newline>'' [ArgS ''Sarge''],
         DebugOut ''Slaying '%s'!\<newline>'' [ArgS ''Sarge''],
         NetEvent 3 EV_GIB_PLAYER 3]\<close>
  using Slay_overkill [of "command_line [''slay'', ''3''] ''3''" 3
      "server [(3, player 3 1)] None False"]
    Slay_overkill [of "command_line [''slay'', ''3''] ''3''" 3
      "server [(3, player 3 999)] None False"]
  by (simp add: sample_defs atoi_defs word_sless_alt word_sle_eq)

subsection \<open>Targets that are turned down\<close>

text \<open>
  Claim C6. When the index is below 0 or above \<open>sv_maxclients\<close>, or the entity at the
  index is not in use, Slap and Slay change nothing but the trace, to which they add one
  line on the local console: the entity table is as before, and there is no network
  event and no broadcast.
\<close>

theorem Slap_Slay_no_target:
  assumes "2 \<le>s Cmd_Argc cmd" and "i = atoi (Cmd_Argv cmd 1)"
    and "i <s 0 \<or> sv_maxclients w <s i \<or> \<not> inuse (g_entities w (unat i))"
    and "diag = (if i <s 0 \<or> sv_maxclients w <s i then range_diagnostic w
                 else not_active_diagnostic)"
  shows "Slap fe cmd w = emit diag w \<and> Slay cmd w = emit diag w
    \<and> g_entities (Slap fe cmd w) = g_entities w \<and> new_effects w (Slap fe cmd w) = [diag]
    \<and> g_entities (Slay cmd w) = g_entities w \<and> new_effects w (Slay cmd w) = [diag]"
proof -
  from assms(1) have argc: "\<not> Cmd_Argc cmd <s 2"
    by (simp add: signed.not_less)
  have slap: "Slap fe cmd w = emit diag w"
    using assms(2-4) argc by (auto simp add: Slap_def Let_def host_defs)
  have slay: "Slay cmd w = emit diag w"
    using assms(2-4) argc by (auto simp add: Slay_def Let_def host_defs)
  show ?thesis
    by (simp add: slap slay new_effects_def)
qed

text \<open>
  Index -1, index 9 on a server with eight slots (where entity 9 is even in use), and a
  free entity at index 2.
\<close>

theorem Slap_Slay_no_target_witness:
  "new_effects (server [] None False)
     (Slap int_floats (command_line [''slap'', ''-1'', ''30''] ''-1 30'') (server [] None False))
     = [range_diagnostic (server [] None False)]
   \<and> g_entities (Slay (command_line [''slay'', ''9''] ''9'') (server [(9, player 9 100)] None False))
     = g_entities (server [(9, player 9 100)] None False)
   \<and> new_effects (server [(9, player 9 100)] None False)
     (Slay (command_line [''slay'', ''9''] ''9'') (server [(9, player 9 100)] None False))
     = [range_diagnostic (server [(9, player 9 100)] None False)]
   \<and> new_effects (server [] None False)
     (Slay (command_line [''slay'', ''2''] ''2'') (server [] None False))
     = [not_active_diagnostic]"
proof -
  let ?w = "server [] None False :: int world"
  let ?w9 = "server [(9, player 9 100)] None False"
  let ?slap = "command_line [''slap'', ''-1'', ''30''] ''-1 30''"
  let ?slay9 = "command_line [''slay'', ''9''] ''9''"
  let ?slay2 = "command_line [''slay'', ''2''] ''2''"
  have argc: "2 \<le>s Cmd_Argc ?slap" "2 \<le>s Cmd_Argc ?slay9" "2 \<le>s Cmd_Argc ?slay2"
    by (simp_all add: sample_defs word_sle_eq)
  have idx: "(- 1 :: cint) = atoi (Cmd_Argv ?slap 1)" "(9 :: cint) = atoi (Cmd_Argv ?slay9 1)"
    "(2 :: cint) = atoi (Cmd_Argv ?slay2 1)"
    by (simp_all add: sample_defs atoi_defs)
  have below: "(- 1 :: cint) <s 0 \<or> sv_maxclients ?w <s - 1
      \<or> \<not> inuse (g_entities ?w (unat (- 1 :: cint)))"
    by (simp add: word_sless_alt)
  have above: "(9 :: cint) <s 0 \<or> sv_maxclients ?w9 <s 9
      \<or> \<not> inuse (g_entities ?w9 (unat (9 :: cint)))"
    by (simp add: sample_defs word_sless_alt)
  have free: "(2 :: cint) <s 0 \<or> sv_maxclients ?w <s 2
      \<or> \<not> inuse (g_entities ?w (unat (2 :: cint)))"
    by (simp add: sample_defs)
  have d1: "range_diagnostic ?w =
      (if (- 1 :: cint) <s 0 \<or> sv_maxclients ?w <s - 1 then range_diagnostic ?w
       else not_active_diagnostic)"
    by (simp add: word_sless_alt)
  have d2: "range_diagnostic ?w9 =
      (if (9 :: cint) <s 0 \<or> sv_maxclients ?w9 <s 9 then range_diagnostic ?w9
       else not_active_diagnostic)"
    by (simp add: sample_defs word_sless_alt)
  have d3: "not_active_diagnostic =
      (if (2 :: cint) <s 0 \<or> sv_maxclients ?w <s 2 then range_diagnostic ?w
       else not_active_diagnostic)"
    by (simp add: sample_defs word_sless_alt)
  from Slap_Slay_no_target [OF argc(1) idx(1) below d1, of int_floats]
    Slap_Slay_no_target [OF argc(2) idx(2) above d2, of int_floats]
    Slap_Slay_no_target [OF argc(3) idx(3) free d3, of int_floats]
  show ?thesis by blast
qed

text \<open>
  Claim C10. When the entity at a valid index is in use and its health is 0 or less,
  Slap and Slay change nothing but the trace, emit no event and no broadcast, and print
  the line they print for an entity that is not in use: the run on the world \<open>w'\<close>, where
  the same entity is not in use, adds the same effects.
\<close>

theorem Slap_Slay_dead_target:
  assumes "2 \<le>s Cmd_Argc cmd" and "i = atoi (Cmd_Argv cmd 1)"
    and "0 \<le>s i" and "i \<le>s sv_maxclients w"
    and "inuse (g_entities w (unat i))" and "health (g_entities w (unat i)) \<le>s 0"
    and "w' = set_entity (unat i) ((g_entities w (unat i))\<lparr>inuse := False\<rparr>) w"
  shows "Slap fe cmd w = emit not_active_diagnostic w
    \<and> Slay cmd w = emit not_active_diagnostic w
    \<and> g_entities (Slap fe cmd w) = g_entities w
    \<and> g_entities (Slay cmd w) = g_entities w
    \<and> new_effects w (Slap fe cmd w) = [not_active_diagnostic]
    \<and> new_effects w (Slay cmd w) = [not_active_diagnostic]
    \<and> new_effects w' (Slap fe cmd w') = new_effects w (Slap fe cmd w)
    \<and> new_effects w' (Slay cmd w') = new_effects w (Slay cmd w)"
proof -
  from assms have guards: "\<not> Cmd_Argc cmd <s 2" "\<not> atoi (Cmd_Argv cmd 1) <s 0"
    "\<not> sv_maxclients w <s atoi (Cmd_Argv cmd 1)"
    "\<not> 0 <s health (g_entities w (unat (atoi (Cmd_Argv cmd 1))))"
    by (simp_all add: signed.not_less)
  have slap: "Slap fe cmd w = emit not_active_diagnostic w"
    using guards by (simp add: Slap_def Let_def host_defs)
  have slay: "Slay cmd w = emit not_active_diagnostic w"
    using guards by (simp add: Slay_def Let_def host_defs)
  have slap': "Slap fe cmd w' = emit not_active_diagnostic w'"
    using guards assms(2,7) by (simp add: Slap_def Let_def host_defs set_entity_def)
  have slay': "Slay cmd w' = emit not_active_diagnostic w'"
    using guards assms(2,7) by (simp add: Slay_def Let_def host_defs set_entity_def)
  show ?thesis
    by (simp add: slap slay slap' slay' new_effects_def)
qed

text \<open>A player with health 0 is slapped, a player with health -40 is slain.\<close>

theorem Slap_Slay_dead_target_witness:
  "new_effects (server [(0, player 0 0)] None False)
     (Slap int_floats (command_line [''slap'', ''0'', ''30''] ''0 30'')
        (server [(0, player 0 0)] None False)) = [not_active_diagnostic]
   \<and> g_entities (Slay (command_line [''slay'', ''0''] ''0'') (server [(0, player 0 (- 40))] None False))
     = g_entities (server [(0, player 0 (- 40))] None False)
   \<and> new_effects (server [(0, player 0 (- 40))] None False)
     (Slay (command_line [''slay'', ''0''] ''0'') (server [(0, player 0 (- 40))] None False))
     = [not_active_diagnostic]"
proof -
  let ?w0 = "server [(0, player 0 0)] None False"
  let ?w1 = "server [(0, player 0 (- 40))] None False"
  let ?slap = "command_line [''slap'', ''0'', ''30''] ''0 30''"
  let ?slay = "command_line [''slay'', ''0''] ''0''"
  have argc: "2 \<le>s Cmd_Argc ?slap" "2 \<le>s Cmd_Argc ?slay"
    by (simp_all add: sample_defs word_sle_eq)
  have idx: "(0 :: cint) = atoi (Cmd_Argv ?slap 1)" "(0 :: cint) = atoi (Cmd_Argv ?slay 1)"
    by (simp_all add: sample_defs atoi_defs)
  have range: "(0 :: cint) \<le>s 0" "(0 :: cint) \<le>s sv_maxclients ?w0"
    "(0 :: cint) \<le>s sv_maxclients ?w1"
    by (simp_all add: sample_defs word_sle_eq)
  have used: "inuse (g_entities ?w0 (unat (0 :: cint)))" "inuse (g_entities ?w1 (unat (0 :: cint)))"
    by (simp_all add: sample_defs)
  have dead: "health (g_entities ?w0 (unat (0 :: cint))) \<le>s 0"
    "health (g_entities ?w1 (unat (0 :: cint))) \<le>s 0"
    by (simp_all add: sample_defs word_sle_eq)
  from Slap_Slay_dead_target [OF argc(1) idx(1) range(1) range(2) used(1) dead(1) refl, of int_floats]
    Slap_Slay_dead_target [OF argc(2) idx(2) range(1) range(3) used(2) dead(2) refl, of int_floats]
  show ?thesis by blast
qed

subsection \<open>What the commands read of the command line\<close>

lemma atoi_no_number:
  assumes "no_number str"
  shows "atoi str = 0"
proof (cases "dropWhile isspace_c str")
  case Nil
  show ?thesis unfolding atoi_def Nil by simp
next
  case (Cons c cs)
  with assms show ?thesis by (simp add: atoi_def no_number_def)
qed

lemma atoi_zero: "atoi ''0'' = 0"
  by (simp add: atoi_defs)

lemma Slap_reads:
  assumes "Cmd_Argc c = Cmd_Argc c'" and "Cmd_Argv c 0 = Cmd_Argv c' 0"
    and "atoi (Cmd_Argv c 1) = atoi (Cmd_Argv c' 1)" and "Cmd_Argv c 2 = Cmd_Argv c' 2"
  shows "Slap fe c w = Slap fe c' w"
  unfolding Slap_def assms ..

lemma Slay_reads:
  assumes "Cmd_Argc c = Cmd_Argc c'" and "Cmd_Argv c 0 = Cmd_Argv c' 0"
    and "atoi (Cmd_Argv c 1) = atoi (Cmd_Argv c' 1)"
  shows "Slay c w = Slay c' w"
  unfolding Slay_def assms ..

subsection \<open>The range of a client index\<close>

text \<open>
  Claim C7. Client slots are numbered from 0 up to, and not including,
  \<open>sv_maxclients\<close>, so the index \<open>sv_maxclients\<close> ought to be turned down as out of
  range with no entity touched. The guard of Slap and Slay is
  \<^verbatim>\<open>i < 0 || i > sv_maxclients->integer\<close>, which lets that one index through. On the
  server with eight slots, \<^verbatim>\<open>slay 8\<close> and \<^verbatim>\<open>slap 8\<close> with a free entity 8 print the line
  for a player that is not active where \<^verbatim>\<open>slay 9\<close> prints the range line; and with an
  entity 8 that is in use with health 100, \<^verbatim>\<open>slay 8\<close> prints no range line, sets the
  health of that entity to -40 and emits the gib event for it.
\<close>

theorem Slay_accepts_index_max_clients:
  \<open>atoi ''8'' = sv_maxclients (server [] None False)
   \<and> new_effects (server [] None False)
        (Slay (command_line [''slay'', ''8''] ''8'') (server [] None False))
       = [not_active_diagnostic]
   \<and> new_effects (server [] None False)
        (Slap int_floats (command_line [''slap'', ''8''] ''8'') (server [] None False))
       = [not_active_diagnostic]
   \<and> range_diagnostic (server [] None False) \<notin>
       set (new_effects (server [] None False)
        (Slay (command_line [''slay'', ''8''] ''8'') (server [] None False)))
   \<and> new_effects (server [] None False)
        (Slay (command_line [''slay'', ''9''] ''9'') (server [] None False))
       = [range_diagnostic (server [] None False)]
   \<and> atoi ''8'' = sv_maxclients (server [(8, player 8 100)] None False)
   \<and> health (g_entities (server [(8, player 8 100)] None False) 8) = 100
   \<and> health (g_entities (Slay (command_line [''slay'', ''8''] ''8'')
        (server [(8, player 8 100)] None False)) 8) = - 40
   \<and> g_entities (Slay (command_line [''slay'', ''8''] ''8'')
        (server [(8, player 8 100)] None False)) 8
       \<noteq> g_entities (server [(8, player 8 100)] None False) 8
   \<and> range_diagnostic (server [(8, player 8 100)] None False) \<notin>
       set (new_effects (server [(8, player 8 100)] None False)
        (Slay (command_line [''slay'', ''8''] ''8'') (server [(8, player 8 100)] None False)))
   \<and> NetEvent 8 EV_GIB_PLAYER 8 \<in>
       set (new_effects (server [(8, player 8 100)] None False)
        (Slay (command_line [''slay'', ''8''] ''8'') (server [(8, player 8 100)] None False)))\<close>
  by (simp add: Slap_def Slay_def Let_def split_def host_defs new_effects_def sample_defs
      atoi_defs word_sless_alt)

subsection \<open>Missing and malformed arguments\<close>

text \<open>
  Claim C8, as the code has it. With fewer than two tokens on the command line, Slap
  and Slay print their usage line on the local console and change nothing else. A
  client id that is present is never checked for being a number: \<^verbatim>\<open>atoi\<close> reads a
  string without a number as 0, and the command runs as it does for the client id
  \<^verbatim>\<open>0\<close>.
\<close>

theorem missing_client_id_usage:
  \<open>(Cmd_Argc cmd <s 2 \<longrightarrow>
      Slap fe cmd w =
        emit (ConsolePrint ''Usage: %s <client_id> [damage]\<newline>'' [ArgS (Cmd_Argv cmd 0)]) w
      \<and> Slay cmd w =
        emit (ConsolePrint ''Usage: %s <client_id>\<newline>'' [ArgS (Cmd_Argv cmd 0)]) w
      \<and> g_entities (Slap fe cmd w) = g_entities w
      \<and> g_entities (Slay cmd w) = g_entities w
      \<and> new_effects w (Slap fe cmd w) =
        [ConsolePrint ''Usage: %s <client_id> [damage]\<newline>'' [ArgS (Cmd_Argv cmd 0)]]
      \<and> new_effects w (Slay cmd w) =
        [ConsolePrint ''Usage: %s <client_id>\<newline>'' [ArgS (Cmd_Argv cmd 0)]])
   \<and> (2 \<le>s Cmd_Argc cmd \<and> no_number (Cmd_Argv cmd 1) \<longrightarrow>
      Slap fe cmd w = Slap fe (cmd\<lparr>Cmd_Argv := (Cmd_Argv cmd)(1 := ''0'')\<rparr>) w
      \<and> Slay cmd w = Slay (cmd\<lparr>Cmd_Argv := (Cmd_Argv cmd)(1 := ''0'')\<rparr>) w)\<close>
proof -
  have slap: \<open>Slap fe cmd w =
      emit (ConsolePrint ''Usage: %s <client_id> [damage]\<newline>'' [ArgS (Cmd_Argv cmd 0)]) w\<close>
    if "Cmd_Argc cmd <s 2"
    using that by (simp add: Slap_def Let_def host_defs)
  have slay: \<open>Slay cmd w =
      emit (ConsolePrint ''Usage: %s <client_id>\<newline>'' [ArgS (Cmd_Argv cmd 0)]) w\<close>
    if "Cmd_Argc cmd <s 2"
    using that by (simp add: Slay_def Let_def host_defs)
  have missing: ?thesis if "Cmd_Argc cmd <s 2"
  proof -
    from that have "\<not> 2 \<le>s Cmd_Argc cmd"
      by (simp add: signed.not_le)
    with that show ?thesis
      by (simp add: slap slay new_effects_def)
  qed
  have read0: "Slap fe cmd w = Slap fe (cmd\<lparr>Cmd_Argv := (Cmd_Argv cmd)(1 := ''0'')\<rparr>) w
      \<and> Slay cmd w = Slay (cmd\<lparr>Cmd_Argv := (Cmd_Argv cmd)(1 := ''0'')\<rparr>) w"
    if "no_number (Cmd_Argv cmd 1)"
  proof -
    let ?c = "cmd\<lparr>Cmd_Argv := (Cmd_Argv cmd)(1 := ''0'')\<rparr>"
    from that have "atoi (Cmd_Argv cmd 1) = 0"
      by (rule atoi_no_number)
    then have same: "Cmd_Argc cmd = Cmd_Argc ?c" "Cmd_Argv cmd 0 = Cmd_Argv ?c 0"
      "atoi (Cmd_Argv cmd 1) = atoi (Cmd_Argv ?c 1)" "Cmd_Argv cmd 2 = Cmd_Argv ?c 2"
      by (simp_all add: atoi_zero)
    have "Slap fe cmd w = Slap fe ?c w"
      by (rule Slap_reads [OF same])
    moreover have "Slay cmd w = Slay ?c w"
      by (rule Slay_reads [OF same(1-3)])
    ultimately show ?thesis
      by (rule conjI)
  qed
  show ?thesis
  proof (cases "Cmd_Argc cmd <s 2")
    case True
    then show ?thesis by (rule missing)
  next
    case False
    with read0 show ?thesis by simp
  qed
qed

text \<open>
  \<^verbatim>\<open>slay abc\<close> slays the player in slot 0 and broadcasts it, and
  \<^verbatim>\<open>slap abc 25\<close> takes 25 from the health of that player and broadcasts it: no usage
  line, and the state changes.
\<close>

theorem malformed_client_id_counterexample:
  \<open>Cmd_Argv (command_line [''slay'', ''abc''] ''abc'') 1 = ''abc''
   \<and> g_entities (Slay (command_line [''slay'', ''abc''] ''abc'')
        (server [(0, player 0 100)] None False)) 0
       \<noteq> g_entities (server [(0, player 0 100)] None False) 0
   \<and> ConsolePrint ''Usage: %s <client_id>\<newline>'' [ArgS ''slay''] \<notin>
       set (new_effects (server [(0, player 0 100)] None False)
        (Slay (command_line [''slay'', ''abc''] ''abc'') (server [(0, player 0 100)] None False)))
   \<and> health (g_entities (server [(0, player 0 100)] None False) 0) = 100
   \<and> health (g_entities (Slay (command_line [''slay'', ''abc''] ''abc'')
        (server [(0, player 0 100)] None False)) 0) = - 40
   \<and> new_effects (server [(0, player 0 100)] None False)
        (Slay (command_line [''slay'', ''abc''] ''abc'') (server [(0, player 0 100)] None False))
       = [ConsolePrint ''Slaying player...\<newline>'' [],
          ServerCommand None ''print "%s^7 was slain!\<newline>"\<newline>'' [ArgS ''Sarge''],
          DebugOut ''Slaying '%s'!\<newline>'' [ArgS ''Sarge''],
          NetEvent 0 EV_GIB_PLAYER 0]
   \<and> health (g_entities (Slap int_floats (command_line [''slap'', ''abc'', ''25''] ''abc 25'')
        (server [(0, player 0 100)] None False)) 0) = 75
   \<and> filter is_server_command (new_effects (server [(0, player 0 100)] None False)
        (Slap int_floats (command_line [''slap'', ''abc'', ''25''] ''abc 25'')
          (server [(0, player 0 100)] None False)))
       = [ServerCommand None ''print "%s^7 was slapped for %d damage!\<newline>"\<newline>''
            [ArgS ''Sarge'', ArgD 25]]\<close>
  by (simp add: Slap_def Slay_def Let_def split_def host_defs new_effects_def sample_defs
      atoi_defs word_sless_alt)

text \<open>\<^verbatim>\<open>slap\<close> alone, and \<^verbatim>\<open>slay abc\<close>.\<close>

theorem missing_client_id_usage_witness:
  \<open>new_effects (server [(0, player 0 100)] None False)
      (Slap int_floats (command_line [''slap''] []) (server [(0, player 0 100)] None False))
     = [ConsolePrint ''Usage: %s <client_id> [damage]\<newline>'' [ArgS ''slap'']]
   \<and> g_entities (Slap int_floats (command_line [''slap''] [])
        (server [(0, player 0 100)] None False))
     = g_entities (server [(0, player 0 100)] None False)
   \<and> new_effects (server [(0, player 0 100)] None False)
      (Slay (command_line [''slap''] []) (server [(0, player 0 100)] None False))
     = [ConsolePrint ''Usage: %s <client_id>\<newline>'' [ArgS ''slap'']]
   \<and> Slay (command_line [''slay'', ''abc''] ''abc'') (server [(0, player 0 100)] None False)
     = Slay ((command_line [''slay'', ''abc''] ''abc'')
          \<lparr>Cmd_Argv := (Cmd_Argv (command_line [''slay'', ''abc''] ''abc''))(1 := ''0'')\<rparr>)
        (server [(0, player 0 100)] None False)\<close>
proof -
  let ?w = "server [(0, player 0 100)] None False"
  let ?c1 = "command_line [''slap''] []"
  let ?c2 = "command_line [''slay'', ''abc''] ''abc''"
  have short: "Cmd_Argc ?c1 <s 2"
    by (simp add: sample_defs word_sless_alt)
  have arg0: "Cmd_Argv ?c1 0 = ''slap''"
    by (simp add: sample_defs)
  have letters: "2 \<le>s Cmd_Argc ?c2 \<and> no_number (Cmd_Argv ?c2 1)"
    by (simp add: sample_defs word_sle_eq no_number_def isspace_c_def isdigit_c_def)
  show ?thesis
    using missing_client_id_usage [of ?c1 int_floats ?w]
      missing_client_id_usage [of ?c2 int_floats ?w] short letters
    unfolding arg0 by blast
qed

subsection \<open>The Python commands\<close>

lemmas py_defs = PyGILState_Ensure_def PyGILState_Release_def PyObject_CallFunction_def
  Py_XDECREF_def PyMinqlx_IsInitialized_def PyMinqlx_Initialize_def PyMinqlx_Finalize_def
  NewGameDispatcher_def RconDispatcher_def

text \<open>
  Claim C1. Whatever the state of the session before, \<^verbatim>\<open>restart_python\<close> leaves it
  initialized and calls the new-game dispatcher exactly once, with the parameter 0.
  A session that was initialized is finalized first, and then initialized.
\<close>

theorem RestartPython_initialized:
  \<open>initialized (RestartPython w)
   \<and> new_effects w (RestartPython w) =
       ConsolePrint ''Restarting Python...\<newline>'' []
         # (if initialized w then [InterpreterFinalized] else [])
         @ [InterpreterInitialized, NewGameCall 0]
   \<and> filter is_new_game (new_effects w (RestartPython w)) = [NewGameCall 0]
   \<and> (initialized w \<longrightarrow>
        precedes InterpreterFinalized InterpreterInitialized (new_effects w (RestartPython w)))\<close>
  by (simp add: RestartPython_def Let_def py_defs host_defs new_effects_def precedes_def)

text \<open>A restart of a running session, and a restart with no session.\<close>

theorem RestartPython_initialized_witness:
  \<open>initialized (server [] None True)
   \<and> initialized (RestartPython (server [] None True))
   \<and> precedes InterpreterFinalized InterpreterInitialized
        (new_effects (server [] None True) (RestartPython (server [] None True)))
   \<and> \<not> initialized (server [] None False)
   \<and> initialized (RestartPython (server [] None False))
   \<and> filter is_new_game (new_effects (server [] None False)
        (RestartPython (server [] None False))) = [NewGameCall 0]\<close>
proof -
  have up: "initialized (server [] None True)" and down: "\<not> initialized (server [] None False)"
    by (simp_all add: sample_defs)
  show ?thesis
    using RestartPython_initialized [of "server [] None True"]
      RestartPython_initialized [of "server [] None False"] up down
    by blast
qed

text \<open>
  Claim C2. With a handler registered, a dispatch acquires the interpreter lock, then
  calls the handler, and releases the lock once, as its last step, whatever the call
  returned, an exception (\<open>r = None\<close>) included. A result that is an object has its
  reference dropped before the lock is released. The lock is held as deep after the
  dispatch as before.
\<close>

theorem PyCommand_lock_discipline:
  assumes "custom_command_handler w = Some h" and "r = h (Cmd_Args cmd)"
    and "tr = new_effects w (PyCommand cmd w)"
  shows \<open>tr = [GIL_Acquired, HandlerCall (Cmd_Args cmd)]
        @ (if r = Some Py_False then
             [ConsolePrint
                ''The command failed to be executed. pyminqlx found no handler.\<newline>'' []]
           else [])
        @ (case r of None \<Rightarrow> [] | Some obj \<Rightarrow> [RefReleased obj])
        @ [GIL_Released]
    \<and> precedes GIL_Acquired (HandlerCall (Cmd_Args cmd)) tr
    \<and> count_list tr GIL_Acquired = 1
    \<and> count_list tr GIL_Released = 1
    \<and> last tr = GIL_Released
    \<and> (case r of None \<Rightarrow> True | Some obj \<Rightarrow> precedes (RefReleased obj) GIL_Released tr)
    \<and> gil_depth (PyCommand cmd w) = gil_depth w\<close>
proof -
  have shape: \<open>tr = [GIL_Acquired, HandlerCall (Cmd_Args cmd)]
        @ (if r = Some Py_False then
             [ConsolePrint
                ''The command failed to be executed. pyminqlx found no handler.\<newline>'' []]
           else [])
        @ (case r of None \<Rightarrow> [] | Some obj \<Rightarrow> [RefReleased obj])
        @ [GIL_Released]\<close>
    using assms
    by (simp add: PyCommand_def Let_def py_defs host_defs new_effects_def split: option.splits)
  have depth: "gil_depth (PyCommand cmd w) = gil_depth w"
    using assms(1)
    by (simp add: PyCommand_def Let_def py_defs host_defs split: option.splits)
  from shape depth show ?thesis
    by (cases r) (simp_all add: precedes_def)
qed

text \<open>A handler that raises, and a handler that returns \<^verbatim>\<open>False\<close>.\<close>

theorem PyCommand_lock_discipline_witness:
  \<open>new_effects (server [] (Some (\<lambda>arg. None)) True)
      (PyCommand (command_line [''py_command'', ''hello''] ''hello'')
         (server [] (Some (\<lambda>arg. None)) True))
     = [GIL_Acquired, HandlerCall ''hello'', GIL_Released]
   \<and> gil_depth (PyCommand (command_line [''py_command'', ''hello''] ''hello'')
         (server [] (Some (\<lambda>arg. None)) True))
     = gil_depth (server [] (Some (\<lambda>arg. None)) True)
   \<and> new_effects (server [] (Some (\<lambda>arg. Some Py_False)) True)
      (PyCommand (command_line [''py_command'', ''hello''] ''hello'')
         (server [] (Some (\<lambda>arg. Some Py_False)) True))
     = [GIL_Acquired, HandlerCall ''hello'',
        ConsolePrint ''The command failed to be executed. pyminqlx found no handler.\<newline>'' [],
        RefReleased Py_False, GIL_Released]
   \<and> precedes (RefReleased Py_False) GIL_Released
       (new_effects (server [] (Some (\<lambda>arg. Some Py_False)) True)
         (PyCommand (command_line [''py_command'', ''hello''] ''hello'')
           (server [] (Some (\<lambda>arg. Some Py_False)) True)))\<close>
proof -
  let ?c = "command_line [''py_command'', ''hello''] ''hello''"
  have raising: "custom_command_handler (server [] (Some (\<lambda>arg. None)) True)
      = Some (\<lambda>arg. None)"
    and declining: "custom_command_handler (server [] (Some (\<lambda>arg. Some Py_False)) True)
      = Some (\<lambda>arg. Some Py_False)"
    by (simp_all add: sample_defs)
  have args: "Cmd_Args ?c = ''hello''"
    by (simp add: sample_defs)
  show ?thesis
    using PyCommand_lock_discipline [OF raising refl refl, of ?c]
      PyCommand_lock_discipline [OF declining refl refl, of ?c]
    by (simp add: args precedes_def)
qed

text \<open>
  Claim C3. With no handler registered a dispatch does nothing: no call and no line on
  the console. With a handler, the console gets the one diagnostic when the handler
  returned \<^verbatim>\<open>False\<close>, and nothing for any other result.
\<close>

theorem PyCommand_diagnostic:
  \<open>(custom_command_handler w = None \<longrightarrow>
      PyCommand cmd w = w \<and> new_effects w (PyCommand cmd w) = [])
   \<and> (custom_command_handler w = Some h \<longrightarrow>
      filter is_console_print (new_effects w (PyCommand cmd w)) =
        (if h (Cmd_Args cmd) = Some Py_False then
           [ConsolePrint
              ''The command failed to be executed. pyminqlx found no handler.\<newline>'' []]
         else []))\<close>
  by (simp add: PyCommand_def Let_def py_defs host_defs new_effects_def split: option.splits)

text \<open>No handler, and handlers that return \<^verbatim>\<open>False\<close>, return \<^verbatim>\<open>True\<close>, and raise.\<close>

theorem PyCommand_diagnostic_witness:
  \<open>PyCommand (command_line [''py_command'', ''hello''] ''hello'') (server [] None True)
     = server [] None True
   \<and> filter is_console_print (new_effects (server [] (Some (\<lambda>arg. Some Py_False)) True)
        (PyCommand (command_line [''py_command'', ''hello''] ''hello'')
           (server [] (Some (\<lambda>arg. Some Py_False)) True)))
     = [ConsolePrint ''The command failed to be executed. pyminqlx found no handler.\<newline>'' []]
   \<and> filter is_console_print (new_effects (server [] (Some (\<lambda>arg. Some Py_True)) True)
        (PyCommand (command_line [''py_command'', ''hello''] ''hello'')
           (server [] (Some (\<lambda>arg. Some Py_True)) True)))
     = []
   \<and> filter is_console_print (new_effects (server [] (Some (\<lambda>arg. None)) True)
        (PyCommand (command_line [''py_command'', ''hello''] ''hello'')
           (server [] (Some (\<lambda>arg. None)) True)))
     = []\<close>
proof -
  let ?c = "command_line [''py_command'', ''hello''] ''hello''"
  have none: "custom_command_handler (server [] None True) = None"
    and declining: "custom_command_handler (server [] (Some (\<lambda>arg. Some Py_False)) True)
      = Some (\<lambda>arg. Some Py_False)"
    and accepting: "custom_command_handler (server [] (Some (\<lambda>arg. Some Py_True)) True)
      = Some (\<lambda>arg. Some Py_True)"
    and raising: "custom_command_handler (server [] (Some (\<lambda>arg. None)) True)
      = Some (\<lambda>arg. None)"
    by (simp_all add: sample_defs)
  show ?thesis
    using PyCommand_diagnostic [of "server [] None True" ?c "\<lambda>arg. None"]
      PyCommand_diagnostic [of "server [] (Some (\<lambda>arg. Some Py_False)) True" ?c
        "\<lambda>arg. Some Py_False"]
      PyCommand_diagnostic [of "server [] (Some (\<lambda>arg. Some Py_True)) True" ?c
        "\<lambda>arg. Some Py_True"]
      PyCommand_diagnostic [of "server [] (Some (\<lambda>arg. None)) True" ?c "\<lambda>arg. None"]
    by (simp add: none declining accepting raising)
qed

subsection \<open>Slaps without damage\<close>

lemma Slap_keeps_maxclients: "sv_maxclients (Slap fe cmd w) = sv_maxclients w"
  by (simp add: Slap_def Let_def split_def host_defs)

lemma Slap_keeps_inuse: "inuse (g_entities (Slap fe cmd w) m) = inuse (g_entities w m)"
  by (simp add: Slap_def Let_def split_def host_defs)

lemma Slap_extends_trace: "trace (Slap fe cmd w) = trace w @ new_effects w (Slap fe cmd w)"
  by (simp add: Slap_def Let_def split_def host_defs new_effects_def)

lemma Slap_no_damage_health:
  assumes "\<not> 2 <s Cmd_Argc cmd \<or> atoi (Cmd_Argv cmd 2) = 0"
  shows "health (g_entities (Slap fe cmd w) m) = health (g_entities w m)"
  using assms by (auto simp add: Slap_def Let_def split_def host_defs)

lemma Slap_no_damage_event:
  assumes "\<not> Cmd_Argc cmd <s 2" and "\<not> atoi (Cmd_Argv cmd 1) <s 0"
    and "\<not> sv_maxclients w <s atoi (Cmd_Argv cmd 1)"
    and "\<not> 2 <s Cmd_Argc cmd \<or> atoi (Cmd_Argv cmd 2) = 0"
    and "inuse (g_entities w (unat (atoi (Cmd_Argv cmd 1))))"
    and "0 <s health (g_entities w (unat (atoi (Cmd_Argv cmd 1))))"
  shows "filter is_net_event (new_effects w (Slap fe cmd w)) =
    [NetEvent (unat (atoi (Cmd_Argv cmd 1))) EV_PAIN 99]"
  using assms by (auto simp add: Slap_def Let_def split_def host_defs new_effects_def)

text \<open>
  What \<open>k\<close> slaps without damage keep: the bound, the target in use with the health it
  had, and a trace that grew by one pain event for each slap.
\<close>

lemma cosmetic_slaps_invariant:
  assumes argc: "\<not> Cmd_Argc cmd <s 2" and low: "\<not> atoi (Cmd_Argv cmd 1) <s 0"
    and high: "\<not> sv_maxclients w <s atoi (Cmd_Argv cmd 1)"
    and zero: "\<not> 2 <s Cmd_Argc cmd \<or> atoi (Cmd_Argv cmd 2) = 0"
    and used: "inuse (g_entities w (unat (atoi (Cmd_Argv cmd 1))))"
    and alive: "0 <s health (g_entities w (unat (atoi (Cmd_Argv cmd 1))))"
  shows "sv_maxclients ((Slap fe cmd ^^ k) w) = sv_maxclients w
    \<and> inuse (g_entities ((Slap fe cmd ^^ k) w) (unat (atoi (Cmd_Argv cmd 1))))
    \<and> health (g_entities ((Slap fe cmd ^^ k) w) (unat (atoi (Cmd_Argv cmd 1))))
        = health (g_entities w (unat (atoi (Cmd_Argv cmd 1))))
    \<and> (\<exists>tr. trace ((Slap fe cmd ^^ k) w) = trace w @ tr
          \<and> filter is_net_event tr
              = replicate k (NetEvent (unat (atoi (Cmd_Argv cmd 1))) EV_PAIN 99))"
proof (induction k)
  case 0
  from used show ?case by simp
next
  case (Suc k)
  let ?n = "unat (atoi (Cmd_Argv cmd 1))"
  let ?v = "(Slap fe cmd ^^ k) w"
  from Suc.IH obtain tr where
    same_max: "sv_maxclients ?v = sv_maxclients w"
    and still_used: "inuse (g_entities ?v ?n)"
    and same_health: "health (g_entities ?v ?n) = health (g_entities w ?n)"
    and so_far: "trace ?v = trace w @ tr"
    and events: "filter is_net_event tr = replicate k (NetEvent ?n EV_PAIN 99)"
    by blast
  from high same_max have high': "\<not> sv_maxclients ?v <s atoi (Cmd_Argv cmd 1)"
    by simp
  from alive same_health have alive': "0 <s health (g_entities ?v ?n)"
    by simp
  have step: "filter is_net_event (new_effects ?v (Slap fe cmd ?v)) = [NetEvent ?n EV_PAIN 99]"
    by (rule Slap_no_damage_event [OF argc low high' zero still_used alive'])
  have "trace (Slap fe cmd ?v) = trace w @ (tr @ new_effects ?v (Slap fe cmd ?v))"
    using Slap_extends_trace [of fe cmd ?v] so_far by simp
  moreover have "filter is_net_event (tr @ new_effects ?v (Slap fe cmd ?v))
      = replicate (Suc k) (NetEvent ?n EV_PAIN 99)"
    using events step by (simp add: replicate_append_same)
  ultimately have "\<exists>tr'. trace (Slap fe cmd ?v) = trace w @ tr'
      \<and> filter is_net_event tr' = replicate (Suc k) (NetEvent ?n EV_PAIN 99)"
    by blast
  moreover have "sv_maxclients (Slap fe cmd ?v) = sv_maxclients w"
    using same_max by (simp add: Slap_keeps_maxclients)
  moreover have "inuse (g_entities (Slap fe cmd ?v) ?n)"
    using still_used by (simp add: Slap_keeps_inuse)
  moreover have "health (g_entities (Slap fe cmd ?v) ?n) = health (g_entities w ?n)"
    using same_health by (simp add: Slap_no_damage_health [OF zero])
  ultimately show ?case
    by simp
qed

text \<open>
  Claim C9. A slap whose damage is omitted or zero, repeated \<open>k\<close> times on an entity
  that is in use with positive health, leaves that health as it was. Every one of the
  \<open>k\<close> slaps is carried out: the entity stays in use and \<open>k\<close> pain events are emitted.
\<close>

theorem cosmetic_slap_repeated:
  assumes "2 \<le>s Cmd_Argc cmd" and "i = atoi (Cmd_Argv cmd 1)"
    and "0 \<le>s i" and "i \<le>s sv_maxclients w"
    and "\<not> 2 <s Cmd_Argc cmd \<or> atoi (Cmd_Argv cmd 2) = 0"
    and "inuse (g_entities w (unat i))" and "0 <s health (g_entities w (unat i))"
  shows "health (g_entities ((Slap fe cmd ^^ k) w) (unat i)) = health (g_entities w (unat i))
    \<and> inuse (g_entities ((Slap fe cmd ^^ k) w) (unat i))
    \<and> filter is_net_event (new_effects w ((Slap fe cmd ^^ k) w))
        = replicate k (NetEvent (unat i) EV_PAIN 99)"
proof -
  from assms have guards: "\<not> Cmd_Argc cmd <s 2" "\<not> atoi (Cmd_Argv cmd 1) <s 0"
    "\<not> sv_maxclients w <s atoi (Cmd_Argv cmd 1)"
    by (simp_all add: signed.not_less)
  from assms(2,6,7) have active: "inuse (g_entities w (unat (atoi (Cmd_Argv cmd 1))))"
    "0 <s health (g_entities w (unat (atoi (Cmd_Argv cmd 1))))"
    by simp_all
  from cosmetic_slaps_invariant [OF guards assms(5) active, where fe = fe and k = k] assms(2)
  show ?thesis
    by (auto simp add: new_effects_def)
qed

text \<open>Five slaps with the damage omitted, three with damage 0, on a player with health 50.\<close>

theorem cosmetic_slap_repeated_witness:
  "health (g_entities ((Slap int_floats (command_line [''slap'', ''0''] ''0'') ^^ 5)
       (server [(0, player 0 50)] None False)) 0) = 50
   \<and> health (g_entities ((Slap int_floats (command_line [''slap'', ''0'', ''0''] ''0 0'') ^^ 3)
       (server [(0, player 0 50)] None False)) 0) = 50
   \<and> filter is_net_event (new_effects (server [(0, player 0 50)] None False)
        ((Slap int_floats (command_line [''slap'', ''0'', ''0''] ''0 0'') ^^ 3)
          (server [(0, player 0 50)] None False)))
       = [NetEvent 0 EV_PAIN 99, NetEvent 0 EV_PAIN 99, NetEvent 0 EV_PAIN 99]"
proof -
  let ?w = "server [(0, player 0 50)] None False"
  let ?omitted = "command_line [''slap'', ''0''] ''0''"
  let ?zero = "command_line [''slap'', ''0'', ''0''] ''0 0''"
  have argc: "2 \<le>s Cmd_Argc ?omitted" "2 \<le>s Cmd_Argc ?zero"
    by (simp_all add: sample_defs word_sle_eq)
  have idx: "(0 :: cint) = atoi (Cmd_Argv ?omitted 1)" "(0 :: cint) = atoi (Cmd_Argv ?zero 1)"
    by (simp_all add: sample_defs atoi_defs)
  have range: "(0 :: cint) \<le>s 0" "(0 :: cint) \<le>s sv_maxclients ?w"
    by (simp_all add: sample_defs word_sle_eq)
  have dmg: "\<not> 2 <s Cmd_Argc ?omitted \<or> atoi (Cmd_Argv ?omitted 2) = 0"
    "\<not> 2 <s Cmd_Argc ?zero \<or> atoi (Cmd_Argv ?zero 2) = 0"
    by (simp_all add: sample_defs atoi_defs word_sless_alt)
  have active: "inuse (g_entities ?w (unat (0 :: cint)))"
    "0 <s health (g_entities ?w (unat (0 :: cint)))"
    by (simp_all add: sample_defs word_sless_alt)
  have u: "unat (0 :: cint) = 0" and h: "health (g_entities ?w 0) = 50"
    and three: "replicate 3 (NetEvent 0 EV_PAIN 99)
      = [NetEvent 0 EV_PAIN 99, NetEvent 0 EV_PAIN 99, NetEvent 0 EV_PAIN 99]"
    by (simp_all add: sample_defs numeral_3_eq_3)
  show ?thesis
    using cosmetic_slap_repeated [OF argc(1) idx(1) range dmg(1) active, where fe = int_floats and k = 5]
      cosmetic_slap_repeated [OF argc(2) idx(2) range dmg(2) active, where fe = int_floats and k = 3]
    unfolding u h three by blast
qed

end
